theory Spec2Isabelle
  imports Main "HOL-Library.Word" "HOL-Library.Multiset"
begin

section \<open>Strings\<close>

text \<open>
  Go strings are byte sequences; a \<^typ>\<open>string\<close> is a list of 8-bit characters, so the
  functions of package \<^verbatim>\<open>strings\<close> that \<^verbatim>\<open>utils.go\<close> calls are modelled bytewise.
  The separator \<^verbatim>\<open>"."\<close> is one byte that never occurs inside a multi-byte UTF-8
  sequence, so splitting at the first such byte is what \<^verbatim>\<open>strings.SplitN(s, ".", 2)\<close>
  does.
\<close>

definition HasPrefix :: "string \<Rightarrow> string \<Rightarrow> bool" where
  "HasPrefix s pre = (length pre \<le> length s \<and> take (length pre) s = pre)"

definition HasSuffix :: "string \<Rightarrow> string \<Rightarrow> bool" where
  "HasSuffix s suf = (length suf \<le> length s \<and> drop (length s - length suf) s = suf)"

definition TrimSuffix :: "string \<Rightarrow> string \<Rightarrow> string" where
  "TrimSuffix s suf = (if HasSuffix s suf then take (length s - length suf) s else s)"

fun Contains :: "string \<Rightarrow> string \<Rightarrow> bool" where
  "Contains [] sub = (sub = [])"
| "Contains (c # cs) sub = (HasPrefix (c # cs) sub \<or> Contains cs sub)"

text \<open>\<^verbatim>\<open>strings.SplitN(s, ".", 2)\<close>: one element when \<open>s\<close> has no dot, otherwise the
  text before the first dot and everything after it.\<close>

definition SplitN2 :: "string \<Rightarrow> string list" where
  "SplitN2 s =
     (if CHR ''.'' \<in> set s
      then [takeWhile (\<lambda>c. c \<noteq> CHR ''.'') s, tl (dropWhile (\<lambda>c. c \<noteq> CHR ''.'') s)]
      else [s])"

text \<open>\<^verbatim>\<open>fmt.Sprintf("%s.%s", a, b)\<close>.\<close>

definition Sprintf_ns :: "string \<Rightarrow> string \<Rightarrow> string" where
  "Sprintf_ns a b = a @ ''.'' @ b"

section \<open>Failures\<close>

text \<open>
  \<^verbatim>\<open>log.Fatal\<close> ends the process with a message; an uncaught panic (a failed type
  assertion, an index out of range, a nil dereference) ends it too. Both are values of
  the model.
\<close>

datatype error =
    FatalListIndexes string
  | FatalBadOplogNs
  | FatalProbeFailed string
  | FatalStartTSOverwritten
  | FatalFind string
  | FatalDecode string
  | FatalCreateIndex string string
  | FatalInsertOplog string
  | PanicTypeAssertion
  | PanicIndexOutOfRange
  | PanicNilDeref

section \<open>Namespace mapper\<close>

record NsMap =
  SrcDb :: string
  SrcColl :: string
  DstDb :: string
  DstColl :: string

text \<open>Indexing a slice: \<^verbatim>\<open>xs[i]\<close> panics when \<open>i\<close> is out of range.\<close>

definition index :: "'a list \<Rightarrow> nat \<Rightarrow> error + 'a" where
  "index xs i = (if i < length xs then Inr (xs ! i) else Inl PanicIndexOutOfRange)"

definition bindE :: "error + 'a \<Rightarrow> ('a \<Rightarrow> error + 'b) \<Rightarrow> error + 'b" where
  "bindE m f = (case m of Inl e \<Rightarrow> Inl e | Inr x \<Rightarrow> f x)"

text \<open>
  \<^verbatim>\<open>CustFilter(ns, nsnsMap)\<close> (lines 852-868). The fields of the struct literal are
  evaluated in the order written; each \<^verbatim>\<open>strings.SplitN(..)[k]\<close> may panic.
\<close>

definition CustFilter :: "string \<Rightarrow> (string \<rightharpoonup> string) \<Rightarrow> error + NsMap" where
  "CustFilter ns nsnsMap =
     (case nsnsMap ns of
        Some dst \<Rightarrow>
          bindE (index (SplitN2 ns) 0) (\<lambda>sd.
          bindE (index (SplitN2 ns) 1) (\<lambda>sc.
          bindE (index (SplitN2 dst) 0) (\<lambda>dd.
          bindE (index (SplitN2 dst) 1) (\<lambda>dc.
            Inr \<lparr>SrcDb = sd, SrcColl = sc, DstDb = dd, DstColl = dc\<rparr>))))
      | None \<Rightarrow>
          bindE (index (SplitN2 ns) 0) (\<lambda>sd.
          bindE (index (SplitN2 ns) 1) (\<lambda>sc.
          bindE (index (SplitN2 ns) 0) (\<lambda>dd.
          bindE (index (SplitN2 ns) 1) (\<lambda>dc.
            Inr \<lparr>SrcDb = sd, SrcColl = sc, DstDb = dd, DstColl = dc\<rparr>)))))"

section \<open>Namespace filter of the replay engine\<close>

text \<open>
  The closure \<^verbatim>\<open>CustContainsNs\<close> of \<^verbatim>\<open>CustReplayOplog\<close> (lines 470-485): a loop
  over \<^verbatim>\<open>nsSlice\<close> that returns at the first entry that is equal to the namespace or
  has the namespace, with a trailing \<^verbatim>\<open>$cmd\<close> cut off, as a prefix.
\<close>

fun CustContainsNs :: "string \<Rightarrow> string list \<Rightarrow> bool" where
  "CustContainsNs oplogns [] = False"
| "CustContainsNs oplogns (v # nsSlice) =
     (if oplogns = v then True
      else if HasPrefix v (TrimSuffix oplogns ''$cmd'') then True
      else CustContainsNs oplogns nsSlice)"

section \<open>Documents\<close>

text \<open>
  \<^verbatim>\<open>primitive.Timestamp\<close> is a pair of unsigned 32-bit numbers (seconds, ordinal);
  \<^verbatim>\<open>Equal\<close> compares both. A decoded BSON value is a tagged union; \<open>BNull\<close> also stands
  for Go's nil interface. A document (\<^verbatim>\<open>bson.D\<close>) is an ordered list of pairs, and
  \<^verbatim>\<open>D.Map()\<close> turns it into a map in which a later pair overrides an earlier one with
  the same key. A \<^verbatim>\<open>bson.M\<close> read from a cursor is looked up the same way.
\<close>

datatype Timestamp = Timestamp (tsT: "32 word") (tsI: "32 word")

datatype bson =
    BNull
  | BStr string
  | BBool bool
  | BInt32 "32 word"
  | BInt64 "64 word"
  | BTs Timestamp
  | BDoc "(string \<times> bson) list"
  | BArr "bson list"

type_synonym D = "(string \<times> bson) list"

definition D_Map :: "D \<Rightarrow> (string \<rightharpoonup> bson)" where
  "D_Map d = map_of (rev d)"

text \<open>Reading a key of a Go map as an interface value: nil when the key is absent.\<close>

definition at_key :: "(string \<rightharpoonup> bson) \<Rightarrow> string \<Rightarrow> bson" where
  "at_key m k = (case m k of Some v \<Rightarrow> v | None \<Rightarrow> BNull)"

text \<open>Type assertions \<^verbatim>\<open>v.(string)\<close>, \<^verbatim>\<open>v.(bool)\<close>, \<^verbatim>\<open>v.(int32)\<close>: a panic on any
  other dynamic type, nil included.\<close>

definition as_string :: "bson \<Rightarrow> error + string" where
  "as_string v = (case v of BStr s \<Rightarrow> Inr s | _ \<Rightarrow> Inl PanicTypeAssertion)"

definition as_bool :: "bson \<Rightarrow> error + bool" where
  "as_bool v = (case v of BBool b \<Rightarrow> Inr b | _ \<Rightarrow> Inl PanicTypeAssertion)"

definition as_int32 :: "bson \<Rightarrow> error + 32 word" where
  "as_int32 v = (case v of BInt32 n \<Rightarrow> Inr n | _ \<Rightarrow> Inl PanicTypeAssertion)"

text \<open>The struct \<^verbatim>\<open>OPLOG\<close>; its field \<^verbatim>\<open>O\<close> is written \<open>O'\<close>, since \<open>O\<close> is HOL's
  composition of relations.\<close>

record OPLOG =
  TS :: Timestamp
  T :: "64 word"
  H :: "64 word"
  V :: "64 word"
  OP :: string
  NS :: string
  O2 :: bson
  O' :: bson

section \<open>The driver\<close>

text \<open>
  The database driver is outside the repository. Every call the code makes on it is a
  value of type \<open>call\<close>, carrying the target namespace, the arguments and the options
  the code sets (an option the code never sets is \<open>None\<close>). The destination server is
  any state machine that answers a call with an error or with nil; the model threads
  its state together with the list of calls issued so far, so that theorems can speak
  about what was sent and in which order, for every server.
\<close>

record IndexOptions =
  Name :: "string option"
  Unique :: "bool option"
  Sparse :: "bool option"
  ExpireAfterSeconds :: "32 word option"
  PartialFilterExpression :: "bson option"
  Weights :: "bson option"
  DefaultLanguage :: "string option"
  LanguageOverride :: "string option"
  Background :: "bool option"

record IndexModel =
  Keys :: "bson option"
  Options :: "IndexOptions option"

datatype cursor_type = NonTailable | TailableAwait

text \<open>The two query documents the code builds: \<^verbatim>\<open>{ts: {$gte: startTS}}\<close> and
  \<^verbatim>\<open>{$and: {ts: {$gte: startTS}, ts: {$lte: endTS}}}\<close>.\<close>

datatype find_filter = TsGte Timestamp | TsAndDoc Timestamp Timestamp

datatype call =
    SrcListIndexes string string
  | SrcFindOne string string find_filter
  | SrcFind string string find_filter cursor_type
  | CreateOne string string IndexModel
  | InsertMany string string "bson list" bool bool
  | InsertOne string string bson bool
  | ReplaceOne string string bson bson bool "bool option"
  | UpdateOne string string bson bson bool "bool option"
  | DeleteOne string string bson
  | RunCommand string bson

text \<open>
  Arguments, in this order. \<open>InsertMany db coll docs ordered bypass\<close>;
  \<open>InsertOne db coll doc bypass\<close>; \<open>ReplaceOne db coll selector replacement upsert bypass\<close>;
  \<open>UpdateOne db coll selector update upsert bypass\<close>; \<open>DeleteOne db coll selector\<close>;
  \<open>RunCommand db command\<close>. \<open>bypass\<close> is the value given to
  \<^verbatim>\<open>SetBypassDocumentValidation\<close>.
\<close>

type_synonym 's server = "'s \<Rightarrow> call \<Rightarrow> string option \<times> 's"

type_synonym 's world = "'s \<times> call list"

definition issue :: "'s server \<Rightarrow> call \<Rightarrow> 's world \<Rightarrow> string option \<times> 's world" where
  "issue srv c st = (case srv (fst st) c of (err, s') \<Rightarrow> (err, (s', snd st @ [c])))"

text \<open>The source server is only read. \<open>Find\<close> gives the documents the cursor delivers
  over its lifetime, in order; \<open>Decode\<close> is the driver's decoding of one of them into
  the struct \<^verbatim>\<open>OPLOG\<close>.\<close>

record source =
  ListIndexes :: "string \<Rightarrow> string \<Rightarrow> string + D list"
  FindOne :: "string \<Rightarrow> string \<Rightarrow> find_filter \<Rightarrow> string + D"
  Find :: "string \<Rightarrow> string \<Rightarrow> find_filter \<Rightarrow> cursor_type \<Rightarrow> string + D list"
  Decode :: "D \<Rightarrow> string + OPLOG"

definition asked :: "call \<Rightarrow> 's world \<Rightarrow> 's world" where
  "asked c st = (fst st, snd st @ [c])"

text \<open>The calls that write to the destination.\<close>

fun is_write :: "call \<Rightarrow> bool" where
  "is_write (SrcListIndexes _ _) = False"
| "is_write (SrcFindOne _ _ _) = False"
| "is_write (SrcFind _ _ _ _) = False"
| "is_write _ = True"

section \<open>Index cloner\<close>

text \<open>
  The body of the loop of \<^verbatim>\<open>CustSyncIndex\<close> up to the call (lines 175-224): the options
  that the source's index document carries are copied, each through the type assertion
  the code writes; \<^verbatim>\<open>Options\<close> is attached to the model only when the document has a
  \<^verbatim>\<open>key\<close>.
\<close>

definition opt_field ::
  "(string \<rightharpoonup> bson) \<Rightarrow> string \<Rightarrow> (bson \<Rightarrow> error + 'a) \<Rightarrow> error + 'a option" where
  "opt_field m k conv =
     (case m k of None \<Rightarrow> Inr None | Some v \<Rightarrow> bindE (conv v) (\<lambda>x. Inr (Some x)))"

definition index_of_result :: "D \<Rightarrow> error + IndexOptions \<times> IndexModel" where
  "index_of_result indexresult =
     (let m = D_Map indexresult in
      bindE (opt_field m ''name'' as_string) (\<lambda>nm.
      bindE (opt_field m ''unique'' as_bool) (\<lambda>un.
      bindE (opt_field m ''sparse'' as_bool) (\<lambda>sp.
      bindE (opt_field m ''expireAfterSeconds'' as_int32) (\<lambda>ttl.
      bindE (opt_field m ''default_language'' as_string) (\<lambda>dl.
      bindE (opt_field m ''language_override'' as_string) (\<lambda>lo.
        let indexopt =
              \<lparr>Name = nm, Unique = un, Sparse = sp, ExpireAfterSeconds = ttl,
               PartialFilterExpression = m ''partialFilterExpression'',
               Weights = m ''weights'', DefaultLanguage = dl, LanguageOverride = lo,
               Background = None\<rparr>
        in Inr (indexopt,
                case m ''key'' of
                  Some k \<Rightarrow> \<lparr>Keys = Some k, Options = Some indexopt\<rparr>
                | None \<Rightarrow> \<lparr>Keys = None, Options = None\<rparr>))))))))"

text \<open>
  The loop (lines 173-233): one \<^verbatim>\<open>CreateOne\<close> per index, in the order of the cursor.
  Any error of \<^verbatim>\<open>CreateOne\<close> reaches \<^verbatim>\<open>log.Fatalf\<close>, whose message dereferences the
  index name.
\<close>

fun sync_index_loop ::
  "'s server \<Rightarrow> string \<Rightarrow> string \<Rightarrow> D list \<Rightarrow> 's world \<Rightarrow> error option \<times> 's world" where
  "sync_index_loop srv dstDbName dstCollName [] st = (None, st)"
| "sync_index_loop srv dstDbName dstCollName (indexresult # rest) st =
     (case index_of_result indexresult of
        Inl e \<Rightarrow> (Some e, st)
      | Inr (indexopt, indexmodel) \<Rightarrow>
          (case issue srv (CreateOne dstDbName dstCollName indexmodel) st of
             (Some err, st') \<Rightarrow>
               (case Name indexopt of
                  None \<Rightarrow> (Some PanicNilDeref, st')
                | Some nm \<Rightarrow> (Some (FatalCreateIndex nm err), st'))
           | (None, st') \<Rightarrow> sync_index_loop srv dstDbName dstCollName rest st'))"

definition CustSyncIndex ::
  "source \<Rightarrow> string \<Rightarrow> string \<Rightarrow> 's server \<Rightarrow> string \<Rightarrow> string \<Rightarrow> 's world
     \<Rightarrow> error option \<times> 's world" where
  "CustSyncIndex src srcDbName srcCollName srv dstDbName dstCollName st =
     (let st1 = asked (SrcListIndexes srcDbName srcCollName) st in
      case ListIndexes src srcDbName srcCollName of
        Inl e \<Rightarrow> (Some (FatalListIndexes e), st1)
      | Inr cur \<Rightarrow> sync_index_loop srv dstDbName dstCollName cur st1)"

section \<open>Batched writer\<close>

text \<open>
  \<^verbatim>\<open>insertManyErrHandler\<close> (lines 329-370), the work done for one document of a failed
  batch. The counters are \<^verbatim>\<open>int64\<close>; they count documents of one slice, so they stay
  far below \<open>2^63\<close> and are modelled as integers.
\<close>

definition insertManyErrHandler ::
  "'s server \<Rightarrow> string \<Rightarrow> string \<Rightarrow> bool \<Rightarrow> bson \<Rightarrow> int \<times> int \<Rightarrow> 's world
     \<Rightarrow> (error + int \<times> int) \<times> 's world" where
  "insertManyErrHandler srv db coll updateOverwrite doc cnt st =
     (case cnt of (sucessNum, failNum) \<Rightarrow>
      if updateOverwrite then
        (case doc of
           BDoc d \<Rightarrow>
             (case issue srv
                     (ReplaceOne db coll (BDoc [(''_id'', at_key (D_Map d) ''_id'')]) doc
                        True (Some False)) st of
                (Some err, st') \<Rightarrow> (Inr (sucessNum, failNum + 1), st')
              | (None, st') \<Rightarrow> (Inr (sucessNum + 1, failNum), st'))
         | _ \<Rightarrow> (Inl PanicTypeAssertion, st))
      else
        (case issue srv (InsertOne db coll doc True) st of
           (Some err, st') \<Rightarrow>
             if Contains err ''E11000 duplicate key error''
             then (Inr (sucessNum + 1, failNum), st')
             else (Inr (sucessNum, failNum + 1), st')
         | (None, st') \<Rightarrow> (Inr (sucessNum + 1, failNum), st')))"

text \<open>
  The producer, the channel and the 500 workers (lines 318-388) hand every document of
  the batch to the handler exactly once. The server answers the workers' calls one
  after the other, in an order that the scheduler decides: \<open>sched\<close> is the batch in that
  order. The counters are updated under the lock, so each handler's increment is whole.
\<close>

fun worker_pool ::
  "'s server \<Rightarrow> string \<Rightarrow> string \<Rightarrow> bool \<Rightarrow> bson list \<Rightarrow> int \<times> int \<Rightarrow> 's world
     \<Rightarrow> (error + int \<times> int) \<times> 's world" where
  "worker_pool srv db coll updateOverwrite [] cnt st = (Inr cnt, st)"
| "worker_pool srv db coll updateOverwrite (doc # sched) cnt st =
     (case insertManyErrHandler srv db coll updateOverwrite doc cnt st of
        (Inl e, st') \<Rightarrow> (Inl e, st')
      | (Inr cnt', st') \<Rightarrow> worker_pool srv db coll updateOverwrite sched cnt' st')"

text \<open>\<^verbatim>\<open>CustInsertMany\<close> (lines 308-394); the result is \<open>(sucessNum, failNum)\<close>.\<close>

definition CustInsertMany ::
  "'s server \<Rightarrow> string \<Rightarrow> string \<Rightarrow> bson list \<Rightarrow> bool \<Rightarrow> bson list \<Rightarrow> 's world
     \<Rightarrow> (error + int \<times> int) \<times> 's world" where
  "CustInsertMany srv db coll docs updateOverwrite sched st =
     (let docsNum = int (length docs) in
      case issue srv (InsertMany db coll docs True False) st of
        (Some err, st') \<Rightarrow> worker_pool srv db coll updateOverwrite sched (0, 0) st'
      | (None, st') \<Rightarrow> (Inr (docsNum, 0), st'))"

section \<open>Oplog replay\<close>

text \<open>
  \<^verbatim>\<open>CustGetOplogNs\<close> (lines 594-722). The deferred function recovers every panic of
  the body; the function then returns the zero values of its results, two empty strings.
\<close>

definition CustGetOplogNs_body :: "OPLOG \<Rightarrow> error + string \<times> string" where
  "CustGetOplogNs_body oplog =
     (if NS oplog \<noteq> [] then
        (case O' oplog of
           BDoc d \<Rightarrow>
             (let exists = (D_Map d ''_id'' \<noteq> None) in
              bindE (if OP oplog = ''i'' \<and> \<not> exists
                     then bindE (as_string (at_key (D_Map d) ''ns'')) (\<lambda>s. Inr (SplitN2 s))
                     else Inr (SplitN2 (NS oplog))) (\<lambda>parts.
              bindE (index parts 0) (\<lambda>a.
              bindE (index parts 1) (\<lambda>b. Inr (a, b)))))
         | _ \<Rightarrow> Inl PanicTypeAssertion)
      else Inr ([], []))"

definition CustGetOplogNs :: "OPLOG \<Rightarrow> string \<times> string" where
  "CustGetOplogNs oplog =
     (case CustGetOplogNs_body oplog of Inl e \<Rightarrow> ([], []) | Inr r \<Rightarrow> r)"

text \<open>\<^verbatim>\<open>options.Index()\<close>, \<^verbatim>\<open>SetName\<close> and \<^verbatim>\<open>SetBackground(true)\<close> (lines 543-545).\<close>

definition oplog_index_options :: "string \<Rightarrow> IndexOptions" where
  "oplog_index_options nm =
     \<lparr>Name = Some nm, Unique = None, Sparse = None, ExpireAfterSeconds = None,
      PartialFilterExpression = None, Weights = None, DefaultLanguage = None,
      LanguageOverride = None, Background = Some True\<rparr>"

text \<open>
  The switch on \<^verbatim>\<open>oplog.OP\<close> (lines 532-587). An error of the destination is printed
  and the loop goes on, so the server's answer is dropped; a failed type assertion on
  \<^verbatim>\<open>oplog.O\<close> is a panic that nothing recovers.
\<close>

definition apply_op :: "'s server \<Rightarrow> NsMap \<Rightarrow> OPLOG \<Rightarrow> 's world \<Rightarrow> error option \<times> 's world" where
  "apply_op srv nsStruct oplog st =
     (if OP oplog = ''i'' then
        (case O' oplog of
           BDoc d \<Rightarrow>
             if D_Map d ''_id'' \<noteq> None then
               (None, snd (issue srv
                  (ReplaceOne (DstDb nsStruct) (DstColl nsStruct)
                     (BDoc [(''_id'', at_key (D_Map d) ''_id'')]) (O' oplog) True None) st))
             else
               (case as_string (at_key (D_Map d) ''name'') of
                  Inl e \<Rightarrow> (Some e, st)
                | Inr nm \<Rightarrow>
                    (None, snd (issue srv
                       (CreateOne (DstDb nsStruct) (DstColl nsStruct)
                          \<lparr>Keys = D_Map d ''key'', Options = Some (oplog_index_options nm)\<rparr>) st)))
         | _ \<Rightarrow> (Some PanicTypeAssertion, st))
      else if OP oplog = ''u'' then
        (case O' oplog of
           BDoc d \<Rightarrow>
             if D_Map d ''$set'' \<noteq> None then
               (None, snd (issue srv
                  (UpdateOne (DstDb nsStruct) (DstColl nsStruct) (O2 oplog) (O' oplog)
                     True (Some False)) st))
             else
               (None, snd (issue srv
                  (ReplaceOne (DstDb nsStruct) (DstColl nsStruct) (O2 oplog) (O' oplog)
                     True None) st))
         | _ \<Rightarrow> (Some PanicTypeAssertion, st))
      else if OP oplog = ''d'' then
        (None, snd (issue srv
           (DeleteOne (DstDb nsStruct) (DstColl nsStruct) (O' oplog)) st))
      else if OP oplog = ''c'' then
        (None, snd (issue srv (RunCommand (DstDb nsStruct) (O' oplog)) st))
      else if OP oplog = ''n'' then (None, st)
      else (None, st))"

text \<open>
  One round of the loop after decoding (lines 527-588): effective namespace, filter,
  mapping, dispatch. The report of lines 514-524 only reads the source's status and
  prints; it issues nothing to the destination and is left out.
\<close>

definition replay_entry ::
  "'s server \<Rightarrow> string list \<Rightarrow> (string \<rightharpoonup> string) \<Rightarrow> OPLOG \<Rightarrow> 's world
     \<Rightarrow> error option \<times> 's world" where
  "replay_entry srv nsSlice nsnsMap oplog st =
     (case CustGetOplogNs oplog of (dstDbName, dstCollName) \<Rightarrow>
      if CustContainsNs (Sprintf_ns dstDbName dstCollName) nsSlice then
        (case CustFilter (Sprintf_ns dstDbName dstCollName) nsnsMap of
           Inl e \<Rightarrow> (Some e, st)
         | Inr nsStruct \<Rightarrow> apply_op srv nsStruct oplog st)
      else (None, st))"

fun replay_loop ::
  "source \<Rightarrow> 's server \<Rightarrow> string list \<Rightarrow> (string \<rightharpoonup> string) \<Rightarrow> D list \<Rightarrow> 's world
     \<Rightarrow> error option \<times> 's world" where
  "replay_loop src srv nsSlice nsnsMap [] st = (None, st)"
| "replay_loop src srv nsSlice nsnsMap (raw # cur) st =
     (case Decode src raw of
        Inl e \<Rightarrow> (Some (FatalDecode e), st)
      | Inr oplog \<Rightarrow>
          (case replay_entry srv nsSlice nsnsMap oplog st of
             (Some e, st') \<Rightarrow> (Some e, st')
           | (None, st') \<Rightarrow> replay_loop src srv nsSlice nsnsMap cur st'))"

text \<open>
  The check of the start timestamp shared by \<^verbatim>\<open>CustReplayOplog\<close> (lines 444-450) and
  \<^verbatim>\<open>CustSyncOplog\<close> (lines 748-755): \<^verbatim>\<open>FindOne\<close> with \<^verbatim>\<open>{ts: {$gte: startTS}}\<close>, then
  \<^verbatim>\<open>firstoplog["ts"].(primitive.Timestamp).Equal(startTS)\<close>.
\<close>

definition check_startTS :: "source \<Rightarrow> string \<Rightarrow> string \<Rightarrow> Timestamp \<Rightarrow> error option" where
  "check_startTS src db coll startTS =
     (case FindOne src db coll (TsGte startTS) of
        Inl e \<Rightarrow> Some (FatalProbeFailed e)
      | Inr firstoplog \<Rightarrow>
          (case at_key (D_Map firstoplog) ''ts'' of
             BTs t \<Rightarrow> if t \<noteq> startTS then Some FatalStartTSOverwritten else None
           | _ \<Rightarrow> Some PanicTypeAssertion))"

text \<open>
  \<^verbatim>\<open>CustReplayOplog\<close> (lines 426-590). Connecting is taken to succeed. With a tailing
  cursor the loop ends only when the cursor dies; the model runs it over the documents
  that the cursor has delivered until then.
\<close>

definition CustReplayOplog ::
  "source \<Rightarrow> 's server \<Rightarrow> Timestamp \<Rightarrow> Timestamp \<Rightarrow> string \<Rightarrow> string list
     \<Rightarrow> (string \<rightharpoonup> string) \<Rightarrow> 's world \<Rightarrow> error option \<times> 's world" where
  "CustReplayOplog src srv startTS endTS srcOplogNamespace0 nsSlice nsnsMap st =
     (let srcOplogNamespace =
            (if srcOplogNamespace0 = [] then ''local.oplog.rs'' else srcOplogNamespace0);
          srcOplogNsSlice = SplitN2 srcOplogNamespace
      in
      if length srcOplogNsSlice \<noteq> 2 then (Some FatalBadOplogNs, st)
      else
        (let db = srcOplogNsSlice ! 0; coll = srcOplogNsSlice ! 1;
             st1 = asked (SrcFindOne db coll (TsGte startTS)) st
         in
         case check_startTS src db coll startTS of
           Some e \<Rightarrow> (Some e, st1)
         | None \<Rightarrow>
             (let ctype = (if srcOplogNamespace = ''local.oplog.rs''
                           then TailableAwait else NonTailable);
                  flt = (if tsT endTS = 0 \<and> tsI endTS = 0
                         then TsGte startTS else TsAndDoc startTS endTS);
                  st2 = asked (SrcFind db coll flt ctype) st1
              in
              case Find src db coll flt ctype of
                Inl e \<Rightarrow> (Some (FatalFind e), st2)
              | Inr cur \<Rightarrow> replay_loop src srv nsSlice nsnsMap cur st2)))"

section \<open>Oplog staging\<close>



section \<open>A collection as the source\<close>

text \<open>
  What the server answers when the source collection holds the documents \<open>content\<close> in
  their natural order. BSON timestamps are ordered by seconds, then by ordinal;
  \<^verbatim>\<open>$gte\<close> matches only values of the same type. \<^verbatim>\<open>FindOne\<close> gives the first match, or
  the driver's "no documents" error.
\<close>

definition ts_le :: "Timestamp \<Rightarrow> Timestamp \<Rightarrow> bool" where
  "ts_le a b = (tsT a < tsT b \<or> (tsT a = tsT b \<and> tsI a \<le> tsI b))"

definition ts_less :: "Timestamp \<Rightarrow> Timestamp \<Rightarrow> bool" where
  "ts_less a b = (tsT a < tsT b \<or> (tsT a = tsT b \<and> tsI a < tsI b))"

definition doc_ts :: "D \<Rightarrow> Timestamp option" where
  "doc_ts d = (case D_Map d ''ts'' of Some (BTs t) \<Rightarrow> Some t | _ \<Rightarrow> None)"

definition matches_gte :: "Timestamp \<Rightarrow> D \<Rightarrow> bool" where
  "matches_gte startTS d = (case doc_ts d of Some t \<Rightarrow> ts_le startTS t | None \<Rightarrow> False)"

definition probe :: "D list \<Rightarrow> Timestamp \<Rightarrow> string + D" where
  "probe content startTS =
     (case List.find (matches_gte startTS) content of
        None \<Rightarrow> Inl ''mongo: no documents in result''
      | Some d \<Rightarrow> Inr d)"

section \<open>Answers of a server\<close>

text \<open>The answers a server gives to a sequence of calls, from a given state.\<close>

fun answers :: "'s server \<Rightarrow> 's \<Rightarrow> call list \<Rightarrow> string option list" where
  "answers srv s [] = []"
| "answers srv s (c # cs) = fst (srv s c) # answers srv (snd (srv s c)) cs"

fun final_state :: "'s server \<Rightarrow> 's \<Rightarrow> call list \<Rightarrow> 's" where
  "final_state srv s [] = s"
| "final_state srv s (c # cs) = final_state srv (snd (srv s c)) cs"

text \<open>An answer of \<^verbatim>\<open>InsertOne\<close> that the skip-on-duplicate policy counts as a success:
  nil, or an error whose text contains the duplicate-key marker.\<close>

definition counted_success :: "string option \<Rightarrow> bool" where
  "counted_success a =
     (case a of None \<Rightarrow> True | Some err \<Rightarrow> Contains err ''E11000 duplicate key error'')"

definition counted_failure :: "string option \<Rightarrow> bool" where
  "counted_failure a =
     (case a of None \<Rightarrow> False | Some err \<Rightarrow> \<not> Contains err ''E11000 duplicate key error'')"

definition insert_one_calls :: "string \<Rightarrow> string \<Rightarrow> bson list \<Rightarrow> call list" where
  "insert_one_calls db coll docs = map (\<lambda>doc. InsertOne db coll doc True) docs"


section \<open>A small environment for the examples\<close>

text \<open>
  A destination with one collection, a unique \<^verbatim>\<open>_id\<close> (a document without \<^verbatim>\<open>_id\<close> gets
  a fresh one, so it never collides) and a validator that rejects every document with a
  field \<^verbatim>\<open>bad\<close>. An insert that bypasses validation skips the
  validator; an ordered \<^verbatim>\<open>InsertMany\<close> stops at the first document that fails. Creating
  the index on \<^verbatim>\<open>{_id: 1}\<close> is answered with an error, every other call with nil.
\<close>

definition doc_id :: "bson \<Rightarrow> bson" where
  "doc_id doc = (case doc of BDoc d \<Rightarrow> at_key (D_Map d) ''_id'' | _ \<Rightarrow> BNull)"

definition valid_doc :: "bson \<Rightarrow> bool" where
  "valid_doc doc = (case doc of BDoc d \<Rightarrow> D_Map d ''bad'' = None | _ \<Rightarrow> False)"

definition store_one :: "bson list \<Rightarrow> bson \<Rightarrow> bool \<Rightarrow> string option \<times> bson list" where
  "store_one s doc bypass =
     (case doc of
        BDoc d \<Rightarrow>
          if \<not> bypass \<and> \<not> valid_doc doc then (Some ''Document failed validation'', s)
          else if D_Map d ''_id'' \<noteq> None \<and> doc_id doc \<in> set (map doc_id s)
          then (Some ''E11000 duplicate key error collection: d.c index: _id_'', s)
          else (None, s @ [doc])
      | _ \<Rightarrow> (Some ''cannot transform type string to a BSON Document'', s))"

fun store_many :: "bson list \<Rightarrow> bson list \<Rightarrow> bool \<Rightarrow> string option \<times> bson list" where
  "store_many s [] bypass = (None, s)"
| "store_many s (doc # docs) bypass =
     (case store_one s doc bypass of
        (Some err, s') \<Rightarrow> (Some err, s')
      | (None, s') \<Rightarrow> store_many s' docs bypass)"

fun mini_server :: "bson list server" where
  "mini_server s (InsertOne db coll doc bypass) = store_one s doc bypass"
| "mini_server s (InsertMany db coll docs ordered bypass) = store_many s docs bypass"
| "mini_server s (CreateOne db coll m) =
     (if Keys m = Some (BDoc [(''_id'', BInt32 1)])
      then (Some ''index already exists'', s) else (None, s))"
| "mini_server s c = (None, s)"

text \<open>A decoder for the examples: the fields \<^verbatim>\<open>ts\<close>, \<^verbatim>\<open>op\<close>, \<^verbatim>\<open>ns\<close>, \<^verbatim>\<open>o2\<close> and \<^verbatim>\<open>o\<close> of
  the document, zero values for what is absent.\<close>

definition decode_OPLOG :: "D \<Rightarrow> string + OPLOG" where
  "decode_OPLOG d =
     Inr \<lparr>TS = (case at_key (D_Map d) ''ts'' of BTs t \<Rightarrow> t | _ \<Rightarrow> Timestamp 0 0),
          T = 0, H = 0, V = 0,
          OP = (case at_key (D_Map d) ''op'' of BStr x \<Rightarrow> x | _ \<Rightarrow> []),
          NS = (case at_key (D_Map d) ''ns'' of BStr x \<Rightarrow> x | _ \<Rightarrow> []),
          O2 = at_key (D_Map d) ''o2'',
          O' = at_key (D_Map d) ''o''\<rparr>"

text \<open>A source whose collections list the indexes \<open>idxs\<close> and hold the documents
  \<open>content\<close>; it refuses the query whose \<^verbatim>\<open>$and\<close> is a document.\<close>

definition sample_source :: "D list \<Rightarrow> D list \<Rightarrow> source" where
  "sample_source idxs content =
     \<lparr>ListIndexes = (\<lambda>db coll. Inr idxs),
      FindOne = (\<lambda>db coll flt.
        case flt of TsGte t \<Rightarrow> probe content t
                  | TsAndDoc a b \<Rightarrow> Inl ''$and must be an array''),
      Find = (\<lambda>db coll flt ctype.
        case flt of TsGte t \<Rightarrow> Inr (filter (matches_gte t) content)
                  | TsAndDoc a b \<Rightarrow> Inl ''$and must be an array''),
      Decode = decode_OPLOG\<rparr>"

section \<open>Properties of the string functions\<close>

lemma takeWhile_dot:
  "CHR ''.'' \<notin> set a \<Longrightarrow> takeWhile (\<lambda>c. c \<noteq> CHR ''.'') (a @ CHR ''.'' # b) = a"
  by (induction a) auto

lemma dropWhile_dot:
  "CHR ''.'' \<notin> set a \<Longrightarrow>
     dropWhile (\<lambda>c. c \<noteq> CHR ''.'') (a @ CHR ''.'' # b) = CHR ''.'' # b"
  by (induction a) auto

lemma SplitN2_join: "CHR ''.'' \<notin> set a \<Longrightarrow> SplitN2 (a @ CHR ''.'' # b) = [a, b]"
  by (simp add: SplitN2_def takeWhile_dot dropWhile_dot)

lemma SplitN2_no_dot: "CHR ''.'' \<notin> set s \<Longrightarrow> SplitN2 s = [s]"
  by (simp add: SplitN2_def)

lemma issue_eq: "issue srv c (s, tr) = (fst (srv s c), (snd (srv s c), tr @ [c]))"
  by (simp add: issue_def split: prod.splits)

section \<open>Namespace mapper: results and failures\<close>

text \<open>
  C5, as the code has it. \<^verbatim>\<open>CustFilter\<close> panics when \<open>ns\<close> has no dot. When \<open>ns\<close> is
  \<open>a.b\<close> with no dot in \<open>a\<close>, the source pair is \<open>(a, b)\<close>; without an entry for \<open>ns\<close>
  in the table the destination pair is \<open>(a, b)\<close> too; with an entry \<open>c.d\<close> (no dot in
  \<open>c\<close>) it is \<open>(c, d)\<close>; and with an entry that has no dot the function panics, although
  \<open>ns\<close> itself can be split.
\<close>

theorem CustFilter_result:
  "(CHR ''.'' \<notin> set ns \<longrightarrow> CustFilter ns nsnsMap = Inl PanicIndexOutOfRange)
   \<and> (CHR ''.'' \<notin> set a \<and> ns = a @ ''.'' @ b \<and> nsnsMap ns = None \<longrightarrow>
        CustFilter ns nsnsMap = Inr \<lparr>SrcDb = a, SrcColl = b, DstDb = a, DstColl = b\<rparr>)
   \<and> (CHR ''.'' \<notin> set a \<and> ns = a @ ''.'' @ b \<and> CHR ''.'' \<notin> set c
        \<and> nsnsMap ns = Some (c @ ''.'' @ d) \<longrightarrow>
        CustFilter ns nsnsMap = Inr \<lparr>SrcDb = a, SrcColl = b, DstDb = c, DstColl = d\<rparr>)
   \<and> (CHR ''.'' \<notin> set a \<and> ns = a @ ''.'' @ b \<and> CHR ''.'' \<notin> set dst
        \<and> nsnsMap ns = Some dst \<longrightarrow>
        CustFilter ns nsnsMap = Inl PanicIndexOutOfRange)"
  by (auto simp: CustFilter_def SplitN2_join SplitN2_no_dot index_def bindE_def
      split: option.splits)

theorem CustFilter_result_witness:
  "CustFilter ''a.b.c'' (map_of [(''a.b.c'', ''x.y.z'')])
     = Inr \<lparr>SrcDb = ''a'', SrcColl = ''b.c'', DstDb = ''x'', DstColl = ''y.z''\<rparr>"
  using CustFilter_result [where ns = "''a.b.c''" and nsnsMap = "map_of [(''a.b.c'', ''x.y.z'')]"
      and a = "''a''" and b = "''b.c''" and c = "''x''" and d = "''y.z''"]
  by simp

text \<open>C5 as stated fails: \<open>a.b\<close> contains the separator, and mapping it to \<open>c\<close> makes
  \<^verbatim>\<open>CustFilter\<close> panic.\<close>

theorem CustFilter_unsplittable_destination:
  "CHR ''.'' \<in> set ''a.b''
   \<and> CustFilter ''a.b'' (map_of [(''a.b'', ''c'')]) = Inl PanicIndexOutOfRange"
  by (simp add: CustFilter_def SplitN2_def index_def bindE_def)

section \<open>Namespace filter\<close>

lemma CustContainsNs_iff:
  "CustContainsNs oplogns nsSlice \<longleftrightarrow>
     (\<exists>v \<in> set nsSlice. oplogns = v \<or> HasPrefix v (TrimSuffix oplogns ''$cmd''))"
  by (induction nsSlice) auto

text \<open>
  C1 at the input where the code leaves it: the namespace \<open>d.c\<close> is no command namespace
  and is not in the list \<open>[d.cx]\<close>, yet it is a prefix of \<open>d.cx\<close> and is admitted; a delete
  logged for \<open>d.c\<close> is then applied to the destination.
\<close>

theorem CustContainsNs_admits_proper_prefix:
  "CustContainsNs ''d.c'' [''d.cx''] = True
   \<and> snd (replay_entry mini_server [''d.cx''] (map_of [])
        \<lparr>TS = Timestamp 7 1, T = 0, H = 0, V = 0, OP = ''d'', NS = ''d.c'', O2 = BNull,
         O' = BDoc [(''_id'', BInt32 1)]\<rparr> ([], []))
     = ([], [DeleteOne ''d'' ''c'' (BDoc [(''_id'', BInt32 1)])])"
  by (simp add: HasPrefix_def TrimSuffix_def HasSuffix_def replay_entry_def CustGetOplogNs_def
      CustGetOplogNs_body_def D_Map_def bindE_def index_def SplitN2_def Sprintf_ns_def
      CustFilter_def apply_op_def issue_def)

section \<open>Replay: no-ops and the empty filter\<close>

lemma apply_op_noop: "OP oplog = ''n'' \<Longrightarrow> apply_op srv nsStruct oplog st = (None, st)"
  by (simp add: apply_op_def)

text \<open>
  C7. For an entry with \<^verbatim>\<open>op = n\<close> one round of the replay loop leaves the destination's
  state and the list of calls as they were: nothing is sent to the destination, whatever
  the filter and the mapping are.
\<close>

theorem replay_entry_noop:
  "OP oplog = ''n'' \<Longrightarrow> snd (replay_entry srv nsSlice nsnsMap oplog st) = st"
  by (simp add: replay_entry_def apply_op_noop split: prod.splits sum.splits)

theorem replay_entry_noop_witness:
  "CustContainsNs ''d.c'' [''d.c'']
   \<and> snd (replay_entry mini_server [''d.c''] (map_of [])
        \<lparr>TS = Timestamp 7 1, T = 0, H = 0, V = 0, OP = ''n'', NS = ''d.c'', O2 = BNull,
         O' = BDoc [(''msg'', BStr ''periodic noop'')]\<rparr> ([], []))
     = ([], [])"
  using replay_entry_noop [of
      "\<lparr>TS = Timestamp 7 1, T = 0, H = 0, V = 0, OP = ''n'', NS = ''d.c'', O2 = BNull,
        O' = BDoc [(''msg'', BStr ''periodic noop'')]\<rparr>"
      mini_server "[''d.c'']" "map_of []" "([], [])"]
  by simp

lemma replay_entry_empty: "replay_entry srv [] nsnsMap oplog st = (None, st)"
  by (simp add: replay_entry_def split: prod.splits)

lemma replay_loop_empty: "snd (replay_loop src srv [] nsnsMap cur st) = st"
  by (induction cur) (simp_all add: replay_entry_empty split: sum.splits)

lemma CustReplayOplog_empty_world:
  "\<exists>rest. snd (CustReplayOplog src srv startTS endTS ns [] nsnsMap (s, tr)) = (s, tr @ rest)
          \<and> filter is_write rest = []"
proof -
  define nsn where "nsn = (if ns = [] then ''local.oplog.rs'' else ns)"
  define db where "db = SplitN2 nsn ! 0"
  define coll where "coll = SplitN2 nsn ! 1"
  define ctype where "ctype = (if nsn = ''local.oplog.rs'' then TailableAwait else NonTailable)"
  define flt where
    "flt = (if tsT endTS = 0 \<and> tsI endTS = 0 then TsGte startTS else TsAndDoc startTS endTS)"
  define st1 where "st1 = asked (SrcFindOne db coll (TsGte startTS)) (s, tr)"
  define st2 where "st2 = asked (SrcFind db coll flt ctype) st1"
  have unfold: "CustReplayOplog src srv startTS endTS ns [] nsnsMap (s, tr) =
     (if length (SplitN2 nsn) \<noteq> 2 then (Some FatalBadOplogNs, (s, tr))
      else case check_startTS src db coll startTS of
             Some e \<Rightarrow> (Some e, st1)
           | None \<Rightarrow> (case Find src db coll flt ctype of
                         Inl e \<Rightarrow> (Some (FatalFind e), st2)
                       | Inr cur \<Rightarrow> replay_loop src srv [] nsnsMap cur st2))"
    unfolding CustReplayOplog_def Let_def nsn_def db_def coll_def ctype_def flt_def st1_def
      st2_def
    by (rule refl)
  have w1: "st1 = (s, tr @ [SrcFindOne db coll (TsGte startTS)])"
    by (simp add: st1_def asked_def)
  have w2: "st2 = (s, tr @ [SrcFindOne db coll (TsGte startTS), SrcFind db coll flt ctype])"
    by (simp add: st2_def w1 asked_def)
  show ?thesis
  proof (cases "length (SplitN2 nsn) \<noteq> 2")
    case True
    then show ?thesis by (simp add: unfold)
  next
    case ok: False
    show ?thesis
    proof (cases "check_startTS src db coll startTS")
      case (Some e)
      with ok show ?thesis by (simp add: unfold w1)
    next
      case None
      show ?thesis
      proof (cases "Find src db coll flt ctype")
        case (Inl e)
        with ok None show ?thesis by (simp add: unfold w2)
      next
        case (Inr cur)
        with ok None show ?thesis by (simp add: unfold replay_loop_empty w2)
      qed
    qed
  qed
qed

text \<open>
  C8. With an empty \<^verbatim>\<open>nsSlice\<close> the filter answers false for every namespace, a round
  of the loop does nothing, and a whole run of \<^verbatim>\<open>CustReplayOplog\<close> leaves the
  destination's state as it was and adds no writing call to the list of calls.
\<close>

theorem replay_empty_filter:
  "CustContainsNs oplogns [] = False
   \<and> replay_entry srv [] nsnsMap oplog st = (None, st)
   \<and> fst (snd (CustReplayOplog src srv startTS endTS ns [] nsnsMap (s, tr))) = s
   \<and> filter is_write (snd (snd (CustReplayOplog src srv startTS endTS ns [] nsnsMap (s, tr))))
       = filter is_write tr"
proof -
  obtain rest where
    "snd (CustReplayOplog src srv startTS endTS ns [] nsnsMap (s, tr)) = (s, tr @ rest)"
    "filter is_write rest = []"
    using CustReplayOplog_empty_world [of src srv startTS endTS ns nsnsMap s tr] by blast
  then show ?thesis by (simp add: replay_entry_empty)
qed

theorem replay_empty_filter_witness:
  "CustContainsNs ''d.c'' [] = False
   \<and> filter is_write (snd (snd (CustReplayOplog
        (sample_source []
           [[(''ts'', BTs (Timestamp 5 1)), (''op'', BStr ''d''), (''ns'', BStr ''d.c''),
             (''o'', BDoc [(''_id'', BInt32 1)])]])
        mini_server (Timestamp 5 1) (Timestamp 0 0) [] [] (map_of []) ([], []))))
     = []"
  using replay_empty_filter [where oplogns = "''d.c''" and srv = mini_server
      and nsnsMap = "map_of []" and startTS = "Timestamp 5 1" and endTS = "Timestamp 0 0"
      and ns = "[]" and s = "[]" and tr = "[]"
      and src = "sample_source []
           [[(''ts'', BTs (Timestamp 5 1)), (''op'', BStr ''d''), (''ns'', BStr ''d.c''),
             (''o'', BDoc [(''_id'', BInt32 1)])]]"]
  by simp

section \<open>Replay: the check of the start timestamp\<close>

lemma ts_less_neq: "ts_less a b \<Longrightarrow> b \<noteq> a"
  by (auto simp: ts_less_def)

lemma ts_less_le: "ts_less a b \<Longrightarrow> ts_le a b"
  by (auto simp: ts_less_def ts_le_def)

lemma probe_all_later:
  assumes "content \<noteq> []"
    and "\<forall>d \<in> set content. \<exists>t. doc_ts d = Some t \<and> ts_less startTS t"
  shows "\<exists>d t. probe content startTS = Inr d \<and> doc_ts d = Some t \<and> ts_less startTS t"
proof -
  from assms(1) obtain d rest where c: "content = d # rest" by (cases content) auto
  with assms(2) obtain t where t: "doc_ts d = Some t" "ts_less startTS t" by auto
  then have "matches_gte startTS d" by (simp add: matches_gte_def ts_less_le)
  with c have "probe content startTS = Inr d" by (simp add: probe_def)
  with t show ?thesis by blast
qed

lemma check_startTS_later:
  assumes "FindOne src db coll (TsGte startTS) = Inr d"
    and "doc_ts d = Some t" and "ts_less startTS t"
  shows "check_startTS src db coll startTS = Some FatalStartTSOverwritten"
proof -
  from assms(2) have "at_key (D_Map d) ''ts'' = BTs t"
    by (auto simp: doc_ts_def at_key_def split: option.splits bson.splits)
  with assms(1) ts_less_neq [OF assms(3)] show ?thesis
    by (simp add: check_startTS_def)
qed

text \<open>
  C2. Let the source oplog collection \<open>db.coll\<close> be nonempty, with every entry's \<^verbatim>\<open>ts\<close>
  strictly after \<open>startTS\<close>, and let the probe be answered from it. Then
  \<^verbatim>\<open>CustReplayOplog\<close> ends in the fatal error of line 449. The probe is the only call
  made: the main cursor is never opened, nothing is sent to the destination and the
  destination's state is unchanged.
\<close>

theorem CustReplayOplog_startTS_overwritten:
  assumes "SplitN2 (if ns = [] then ''local.oplog.rs'' else ns) = [db, coll]"
    and "FindOne src db coll (TsGte startTS) = probe content startTS"
    and "content \<noteq> []"
    and "\<forall>d \<in> set content. \<exists>t. doc_ts d = Some t \<and> ts_less startTS t"
  shows "CustReplayOplog src srv startTS endTS ns nsSlice nsnsMap (s, tr)
           = (Some FatalStartTSOverwritten, (s, tr @ [SrcFindOne db coll (TsGte startTS)]))"
proof -
  from probe_all_later [OF assms(3,4)] obtain d t where
    "probe content startTS = Inr d" "doc_ts d = Some t" "ts_less startTS t" by blast
  with assms(2) have "check_startTS src db coll startTS = Some FatalStartTSOverwritten"
    using check_startTS_later by simp
  with assms(1) show ?thesis
    by (simp add: CustReplayOplog_def Let_def asked_def)
qed

theorem CustReplayOplog_startTS_overwritten_witness:
  "CustReplayOplog
      (sample_source []
         [[(''ts'', BTs (Timestamp 500 1)), (''op'', BStr ''d''), (''ns'', BStr ''d.c''),
           (''o'', BDoc [(''_id'', BInt32 1)])]])
      mini_server (Timestamp 400 1) (Timestamp 0 0) [] [''d.c''] (map_of []) ([], [])
     = (Some FatalStartTSOverwritten,
        ([], [SrcFindOne ''local'' ''oplog.rs'' (TsGte (Timestamp 400 1))]))"
  using CustReplayOplog_startTS_overwritten [of "[]" "''local''" "''oplog.rs''"
      "sample_source []
         [[(''ts'', BTs (Timestamp 500 1)), (''op'', BStr ''d''), (''ns'', BStr ''d.c''),
           (''o'', BDoc [(''_id'', BInt32 1)])]]"
      "Timestamp 400 1"
      "[[(''ts'', BTs (Timestamp 500 1)), (''op'', BStr ''d''), (''ns'', BStr ''d.c''),
           (''o'', BDoc [(''_id'', BInt32 1)])]]"
      mini_server "Timestamp 0 0" "[''d.c'']" "map_of []" "[]" "[]"]
  by (simp add: SplitN2_def sample_source_def doc_ts_def D_Map_def ts_less_def)

section \<open>Index cloner: creation errors\<close>

lemma sync_index_loop_append:
  "sync_index_loop srv db coll pre st = (None, st1) \<Longrightarrow>
     sync_index_loop srv db coll (pre @ rest) st = sync_index_loop srv db coll rest st1"
proof (induction pre arbitrary: st)
  case Nil
  then show ?case by simp
next
  case (Cons ix pre)
  then show ?case
    by (auto split: sum.splits prod.splits option.splits)
qed

text \<open>
  C3, as the code has it. When the indexes before \<open>ix\<close> have been created and the
  destination answers the creation of \<open>ix\<close> with an error, \<^verbatim>\<open>CustSyncIndex\<close> ends there:
  with \<^verbatim>\<open>log.Fatalf\<close>, or with a nil dereference when the index document has no name. No
  index after \<open>ix\<close> is created. Nothing in this depends on which index \<open>ix\<close> is or on what
  the error says.
\<close>

theorem CustSyncIndex_any_creation_error_fatal:
  assumes "ListIndexes src srcDb srcColl = Inr (pre @ ix # post)"
    and "sync_index_loop srv db coll pre (asked (SrcListIndexes srcDb srcColl) st)
           = (None, (s1, tr1))"
    and "index_of_result ix = Inr (indexopt, indexmodel)"
    and "srv s1 (CreateOne db coll indexmodel) = (Some err, s2)"
  shows "CustSyncIndex src srcDb srcColl srv db coll st =
           (Some (case Name indexopt of None \<Rightarrow> PanicNilDeref
                                       | Some nm \<Rightarrow> FatalCreateIndex nm err),
            (s2, tr1 @ [CreateOne db coll indexmodel]))"
proof -
  have "sync_index_loop srv db coll (ix # post) (s1, tr1) =
          (Some (case Name indexopt of None \<Rightarrow> PanicNilDeref
                                      | Some nm \<Rightarrow> FatalCreateIndex nm err),
           (s2, tr1 @ [CreateOne db coll indexmodel]))"
    using assms(3,4) by (simp add: issue_eq split: option.splits)
  with sync_index_loop_append [OF assms(2), of "ix # post"] assms(1)
  show ?thesis by (simp add: CustSyncIndex_def Let_def)
qed

theorem CustSyncIndex_any_creation_error_fatal_witness:
  "CustSyncIndex
      (sample_source
         [[(''key'', BDoc [(''a'', BInt32 1)]), (''name'', BStr ''a_1'')],
          [(''key'', BDoc [(''_id'', BInt32 1)]), (''name'', BStr ''_id_'')],
          [(''key'', BDoc [(''b'', BInt32 1)]), (''name'', BStr ''b_1'')]] [])
      ''d'' ''c'' mini_server ''e'' ''f'' ([], [])
     = (Some (FatalCreateIndex ''_id_'' ''index already exists''),
        ([], [SrcListIndexes ''d'' ''c'',
              CreateOne ''e'' ''f''
                \<lparr>Keys = Some (BDoc [(''a'', BInt32 1)]),
                 Options = Some \<lparr>Name = Some ''a_1'', Unique = None, Sparse = None,
                   ExpireAfterSeconds = None, PartialFilterExpression = None, Weights = None,
                   DefaultLanguage = None, LanguageOverride = None, Background = None\<rparr>\<rparr>,
              CreateOne ''e'' ''f''
                \<lparr>Keys = Some (BDoc [(''_id'', BInt32 1)]),
                 Options = Some \<lparr>Name = Some ''_id_'', Unique = None, Sparse = None,
                   ExpireAfterSeconds = None, PartialFilterExpression = None, Weights = None,
                   DefaultLanguage = None, LanguageOverride = None, Background = None\<rparr>\<rparr>]))"
proof -
  let ?a = "[(''key'', BDoc [(''a'', BInt32 1)]), (''name'', BStr ''a_1'')]"
  let ?i = "[(''key'', BDoc [(''_id'', BInt32 1)]), (''name'', BStr ''_id_'')]"
  let ?b = "[(''key'', BDoc [(''b'', BInt32 1)]), (''name'', BStr ''b_1'')]"
  let ?opt = "\<lambda>nm. \<lparr>Name = Some nm, Unique = None, Sparse = None,
                   ExpireAfterSeconds = None, PartialFilterExpression = None, Weights = None,
                   DefaultLanguage = None, LanguageOverride = None, Background = None\<rparr>"
  let ?ma = "\<lparr>Keys = Some (BDoc [(''a'', BInt32 1)]), Options = Some (?opt ''a_1'')\<rparr>"
  let ?mi = "\<lparr>Keys = Some (BDoc [(''_id'', BInt32 1)]), Options = Some (?opt ''_id_'')\<rparr>"
  have h1: "ListIndexes (sample_source [?a, ?i, ?b] []) ''d'' ''c'' = Inr ([?a] @ ?i # [?b])"
    by (simp add: sample_source_def)
  have h2: "sync_index_loop mini_server ''e'' ''f'' [?a] (asked (SrcListIndexes ''d'' ''c'') ([], []))
              = (None, ([], [SrcListIndexes ''d'' ''c'', CreateOne ''e'' ''f'' ?ma]))"
    by (simp add: asked_def index_of_result_def D_Map_def opt_field_def bindE_def as_string_def
        issue_def Let_def)
  have h3: "index_of_result ?i = Inr (?opt ''_id_'', ?mi)"
    by (simp add: index_of_result_def D_Map_def opt_field_def bindE_def as_string_def Let_def)
  have h4: "mini_server [] (CreateOne ''e'' ''f'' ?mi) = (Some ''index already exists'', [])"
    by simp
  show ?thesis
    using CustSyncIndex_any_creation_error_fatal [OF h1 h2 h3 h4] by simp
qed

text \<open>
  C3 as stated fails: the destination answers the creation of the \<^verbatim>\<open>_id\<close> index with
  "index already exists", and the job ends in \<^verbatim>\<open>log.Fatalf\<close>.
\<close>

theorem CustSyncIndex_id_index_error_is_fatal:
  "fst (CustSyncIndex
      (sample_source [[(''v'', BInt32 2), (''key'', BDoc [(''_id'', BInt32 1)]),
                       (''name'', BStr ''_id_''), (''ns'', BStr ''d.c'')]] [])
      ''d'' ''c'' mini_server ''d'' ''c'' ([], []))
     = Some (FatalCreateIndex ''_id_'' ''index already exists'')"
  by (simp add: CustSyncIndex_def sample_source_def asked_def index_of_result_def D_Map_def
      opt_field_def bindE_def as_string_def issue_def Let_def)

section \<open>Oplog staging: the inserts\<close>










section \<open>Batched writer: the fallback and its counters\<close>

lemma handler_skip:
  "insertManyErrHandler srv db coll False doc (sN, fN) (s, tr) =
     (Inr (if counted_success (fst (srv s (InsertOne db coll doc True)))
           then (sN + 1, fN) else (sN, fN + 1)),
      (snd (srv s (InsertOne db coll doc True)), tr @ [InsertOne db coll doc True]))"
  by (auto simp: insertManyErrHandler_def issue_eq counted_success_def
      split: option.splits prod.splits)

lemma counted_failure_iff: "counted_failure a \<longleftrightarrow> \<not> counted_success a"
  by (simp add: counted_failure_def counted_success_def split: option.splits)

lemma worker_pool_skip:
  "worker_pool srv db coll False sched (sN, fN) (s, tr) =
     (Inr (sN + int (length (filter counted_success
                       (answers srv s (insert_one_calls db coll sched)))),
           fN + int (length (filter counted_failure
                       (answers srv s (insert_one_calls db coll sched))))),
      (final_state srv s (insert_one_calls db coll sched), tr @ insert_one_calls db coll sched))"
proof (induction sched arbitrary: sN fN s tr)
  case Nil
  then show ?case by (simp add: insert_one_calls_def)
next
  case (Cons doc sched)
  show ?case
    by (simp add: handler_skip Cons.IH counted_failure_iff)
       (simp add: insert_one_calls_def counted_failure_iff)
qed

lemma handler_one_counter:
  "insertManyErrHandler srv db coll uo doc (sN, fN) st = (Inr (sN', fN'), st') \<Longrightarrow>
     (sN' = sN + 1 \<and> fN' = fN) \<or> (sN' = sN \<and> fN' = fN + 1)"
  by (auto simp: insertManyErrHandler_def
      split: if_splits bson.splits option.splits prod.splits)

lemma worker_pool_sum:
  "worker_pool srv db coll uo sched (sN, fN) st = (Inr (sN', fN'), st') \<Longrightarrow>
     sN' + fN' = sN + fN + int (length sched) \<and> sN \<le> sN' \<and> fN \<le> fN'"
proof (induction sched arbitrary: sN fN st)
  case Nil
  then show ?case by simp
next
  case (Cons doc sched)
  obtain r st1 where h: "insertManyErrHandler srv db coll uo doc (sN, fN) st = (r, st1)"
    by (cases "insertManyErrHandler srv db coll uo doc (sN, fN) st")
  show ?case
  proof (cases r)
    case (Inl e)
    with Cons.prems h show ?thesis by simp
  next
    case (Inr cnt)
    obtain a b where cnt: "cnt = (a, b)" by (cases cnt)
    from h Inr cnt have step: "(a = sN + 1 \<and> b = fN) \<or> (a = sN \<and> b = fN + 1)"
      using handler_one_counter by blast
    from Cons.prems h Inr cnt
    have "worker_pool srv db coll uo sched (a, b) st1 = (Inr (sN', fN'), st')" by simp
    from Cons.IH [OF this] step show ?thesis by auto
  qed
qed

lemma worker_pool_trace_prefix:
  "\<exists>rest. snd (snd (worker_pool srv db coll uo sched cnt (s, tr))) = tr @ rest"
proof (induction sched arbitrary: cnt s tr)
  case Nil
  then show ?case by simp
next
  case (Cons doc sched)
  obtain r s1 tr1 where
    h: "insertManyErrHandler srv db coll uo doc cnt (s, tr) = (r, (s1, tr1))"
    by (metis prod.exhaust)
  then have "\<exists>x. tr1 = tr @ x"
    by (auto simp: insertManyErrHandler_def issue_eq
        split: if_splits bson.splits option.splits prod.splits)
  then obtain x where x: "tr1 = tr @ x" ..
  show ?case
  proof (cases r)
    case (Inl e)
    with h x show ?thesis by simp
  next
    case (Inr c)
    from Cons.IH [of c s1 tr1] obtain rest where
      "snd (snd (worker_pool srv db coll uo sched c (s1, tr1))) = tr1 @ rest" ..
    with h Inr x show ?thesis by simp
  qed
qed

text \<open>
  The writer returns its counters whenever no handler panics: always under the
  skip-on-duplicate policy, and under the replacing policy when every document is a
  \<^verbatim>\<open>bson.D\<close>.
\<close>

lemma handler_returns:
  "\<not> uo \<or> (\<exists>d. doc = BDoc d) \<Longrightarrow>
     \<exists>cnt' st'. insertManyErrHandler srv db coll uo doc cnt st = (Inr cnt', st')"
  by (cases cnt)
     (auto simp: insertManyErrHandler_def
        split: if_splits bson.splits option.splits prod.splits)

lemma worker_pool_returns:
  "\<not> uo \<or> (\<forall>doc \<in> set sched. \<exists>d. doc = BDoc d) \<Longrightarrow>
     \<exists>cnt'. fst (worker_pool srv db coll uo sched cnt st) = Inr cnt'"
proof (induction sched arbitrary: cnt st)
  case Nil
  then show ?case by simp
next
  case (Cons doc sched)
  then have "\<not> uo \<or> (\<exists>d. doc = BDoc d)" by auto
  from handler_returns [OF this] obtain cnt' st' where
    h: "insertManyErrHandler srv db coll uo doc cnt st = (Inr cnt', st')" by blast
  from Cons.prems have "\<not> uo \<or> (\<forall>doc \<in> set sched. \<exists>d. doc = BDoc d)" by auto
  from Cons.IH [OF this, of cnt' st'] h show ?case by simp
qed

lemma CustInsertMany_returns:
  "\<not> uo \<or> (\<forall>doc \<in> set sched. \<exists>d. doc = BDoc d) \<Longrightarrow>
     \<exists>cnt. fst (CustInsertMany srv db coll docs uo sched st) = Inr cnt"
  using worker_pool_returns [of uo sched srv db coll]
  by (auto simp: CustInsertMany_def split: prod.splits option.splits)

text \<open>
  C6. Under the skip-on-duplicate policy (\<^verbatim>\<open>updateOverwrite = false\<close>) the handler sends
  one \<^verbatim>\<open>InsertOne\<close> for its document and nothing else. An error whose text contains
  \<^verbatim>\<open>E11000 duplicate key error\<close> adds one to the success counter, any other error adds one
  to the failure counter. After a failed \<^verbatim>\<open>InsertMany\<close> the whole run is one \<^verbatim>\<open>InsertOne\<close>
  per document, in the order the workers are served; the success counter is the number of
  answers that are nil or a duplicate-key error, the failure counter the number of the
  other answers, and no further call follows, so the destination is touched by these
  calls only.
\<close>

theorem CustInsertMany_skip_on_duplicate:
  "(fst (srv s (InsertOne db coll doc True)) = Some e
      \<and> Contains e ''E11000 duplicate key error'' \<longrightarrow>
      insertManyErrHandler srv db coll False doc (sN, fN) (s, tr)
        = (Inr (sN + 1, fN),
           (snd (srv s (InsertOne db coll doc True)), tr @ [InsertOne db coll doc True])))
   \<and> (fst (srv s (InsertOne db coll doc True)) = Some e
      \<and> \<not> Contains e ''E11000 duplicate key error'' \<longrightarrow>
      insertManyErrHandler srv db coll False doc (sN, fN) (s, tr)
        = (Inr (sN, fN + 1),
           (snd (srv s (InsertOne db coll doc True)), tr @ [InsertOne db coll doc True])))
   \<and> (fst (srv s (InsertMany db coll docs True False)) = Some err \<longrightarrow>
      CustInsertMany srv db coll docs False sched (s, tr) =
        (Inr (int (length (filter counted_success
                (answers srv (snd (srv s (InsertMany db coll docs True False)))
                   (insert_one_calls db coll sched)))),
              int (length (filter counted_failure
                (answers srv (snd (srv s (InsertMany db coll docs True False)))
                   (insert_one_calls db coll sched))))),
         (final_state srv (snd (srv s (InsertMany db coll docs True False)))
            (insert_one_calls db coll sched),
          tr @ InsertMany db coll docs True False # insert_one_calls db coll sched)))"
  by (simp add: handler_skip counted_success_def CustInsertMany_def issue_eq worker_pool_skip)

theorem CustInsertMany_skip_on_duplicate_witness:
  "CustInsertMany mini_server ''d'' ''c''
      [BDoc [(''_id'', BInt32 1)], BStr ''x'', BDoc [(''_id'', BInt32 2)]] False
      [BDoc [(''_id'', BInt32 2)], BStr ''x'', BDoc [(''_id'', BInt32 1)]]
      ([BDoc [(''_id'', BInt32 2)]], [])
     = (Inr (2, 1),
        ([BDoc [(''_id'', BInt32 2)], BDoc [(''_id'', BInt32 1)]],
         [InsertMany ''d'' ''c''
            [BDoc [(''_id'', BInt32 1)], BStr ''x'', BDoc [(''_id'', BInt32 2)]] True False,
          InsertOne ''d'' ''c'' (BDoc [(''_id'', BInt32 2)]) True,
          InsertOne ''d'' ''c'' (BStr ''x'') True,
          InsertOne ''d'' ''c'' (BDoc [(''_id'', BInt32 1)]) True]))"
proof -
  let ?d1 = "BDoc [(''_id'', BInt32 1)]"
  let ?d2 = "BDoc [(''_id'', BInt32 2)]"
  have bulk: "mini_server [?d2] (InsertMany ''d'' ''c'' [?d1, BStr ''x'', ?d2] True False)
                = (Some ''cannot transform type string to a BSON Document'', [?d2, ?d1])"
    by (simp add: store_one_def valid_doc_def doc_id_def D_Map_def at_key_def)
  have a1: "mini_server [?d2, ?d1] (InsertOne ''d'' ''c'' ?d2 True)
              = (Some ''E11000 duplicate key error collection: d.c index: _id_'', [?d2, ?d1])"
    by (simp add: store_one_def valid_doc_def doc_id_def D_Map_def at_key_def)
  have a2: "mini_server [?d2, ?d1] (InsertOne ''d'' ''c'' (BStr ''x'') True)
              = (Some ''cannot transform type string to a BSON Document'', [?d2, ?d1])"
    by (simp add: store_one_def)
  have a3: "mini_server [?d2, ?d1] (InsertOne ''d'' ''c'' ?d1 True)
              = (Some ''E11000 duplicate key error collection: d.c index: _id_'', [?d2, ?d1])"
    by (simp add: store_one_def valid_doc_def doc_id_def D_Map_def at_key_def)
  have m1: "Contains ''E11000 duplicate key error collection: d.c index: _id_''
              ''E11000 duplicate key error''"
    by (simp add: HasPrefix_def)
  have m2: "\<not> Contains ''cannot transform type string to a BSON Document''
              ''E11000 duplicate key error''"
    by (simp add: HasPrefix_def)
  show ?thesis
    using CustInsertMany_skip_on_duplicate [where srv = mini_server and s = "[?d2]"
        and db = "''d''" and coll = "''c''" and docs = "[?d1, BStr ''x'', ?d2]"
        and sched = "[?d2, BStr ''x'', ?d1]" and tr = "[]"
        and err = "''cannot transform type string to a BSON Document''"]
    by (simp only: bulk a1 a2 a3 m1 m2 fst_conv snd_conv answers.simps final_state.simps
        insert_one_calls_def list.map counted_success_def counted_failure_def option.case
        filter.simps if_True if_False not_True_eq_False not_False_eq_True simp_thms
        list.size append_Nil)
       simp
qed

text \<open>
  C9. A call of \<^verbatim>\<open>CustInsertMany\<close> that returns gives counters that are not negative and
  add up to the number of documents of the batch. When \<^verbatim>\<open>InsertMany\<close> succeeds they are
  \<open>(n, 0)\<close>. On the fallback path every document is handed to the handler once
  (\<open>sched\<close> is a rearrangement of the batch), and a handler that returns has added one to
  exactly one of the two counters.
\<close>

theorem CustInsertMany_counters:
  assumes "mset sched = mset docs"
    and "fst (CustInsertMany srv db coll docs uo sched (s, tr)) = Inr (sN, fN)"
  shows "sN + fN = int (length docs) \<and> 0 \<le> sN \<and> 0 \<le> fN
         \<and> (fst (srv s (InsertMany db coll docs True False)) = None \<longrightarrow>
              sN = int (length docs) \<and> fN = 0)
         \<and> (insertManyErrHandler srv db coll uo doc (a, b) st = (Inr (a', b'), st') \<longrightarrow>
              (a' = a + 1 \<and> b' = b) \<or> (a' = a \<and> b' = b + 1))"
proof -
  have len: "length sched = length docs"
    using assms(1) by (metis size_mset)
  have part3: "insertManyErrHandler srv db coll uo doc (a, b) st = (Inr (a', b'), st') \<longrightarrow>
                (a' = a + 1 \<and> b' = b) \<or> (a' = a \<and> b' = b + 1)"
    using handler_one_counter [of srv db coll uo doc a b st a' b' st'] by blast
  show ?thesis
  proof (cases "fst (srv s (InsertMany db coll docs True False))")
    case None
    with assms(2) have "sN = int (length docs) \<and> fN = 0"
      by (simp add: CustInsertMany_def issue_eq)
    with None part3 show ?thesis by simp
  next
    case (Some err)
    let ?st1 = "(snd (srv s (InsertMany db coll docs True False)),
                 tr @ [InsertMany db coll docs True False])"
    from Some assms(2) have "fst (worker_pool srv db coll uo sched (0, 0) ?st1) = Inr (sN, fN)"
      by (simp add: CustInsertMany_def issue_eq)
    then have "worker_pool srv db coll uo sched (0, 0) ?st1
                 = (Inr (sN, fN), snd (worker_pool srv db coll uo sched (0, 0) ?st1))"
      by (metis prod.collapse)
    from worker_pool_sum [OF this] len Some part3 show ?thesis by simp
  qed
qed

theorem CustInsertMany_counters_witness:
  "fst (CustInsertMany mini_server ''d'' ''c''
      [BDoc [(''_id'', BInt32 1)], BStr ''x'', BDoc [(''_id'', BInt32 2)]] False
      [BDoc [(''_id'', BInt32 2)], BStr ''x'', BDoc [(''_id'', BInt32 1)]]
      ([BDoc [(''_id'', BInt32 2)]], [])) = Inr (2, 1)
   \<and> (2::int) + 1 = int (length [BDoc [(''_id'', BInt32 1)], BStr ''x'',
                                   BDoc [(''_id'', BInt32 2)]])"
proof -
  let ?d1 = "BDoc [(''_id'', BInt32 1)]"
  let ?d2 = "BDoc [(''_id'', BInt32 2)]"
  have h1: "mset [?d2, BStr ''x'', ?d1] = mset [?d1, BStr ''x'', ?d2]"
    by simp
  have h2: "fst (CustInsertMany mini_server ''d'' ''c'' [?d1, BStr ''x'', ?d2] False
              [?d2, BStr ''x'', ?d1] ([?d2], [])) = Inr (2, 1)"
    by (simp add: CustInsertMany_def issue_def insertManyErrHandler_def store_one_def
        valid_doc_def doc_id_def D_Map_def at_key_def HasPrefix_def)
  from CustInsertMany_counters [OF h1 h2] h2 show ?thesis
    by simp
qed

text \<open>
  C10. Every run starts with the \<^verbatim>\<open>InsertMany\<close>, ordered and with the bypass option false.
  When it fails under the skip-on-duplicate policy, the calls that follow are one
  \<^verbatim>\<open>InsertOne\<close> per document with the bypass option true. So when a server refuses a
  document in the batch and accepts it in an insert that bypasses validation, the run
  ends with the document stored and counted as a success; the server of the examples
  does this for a document that its validator rejects.
\<close>

theorem CustInsertMany_validation_asymmetry:
  "(\<exists>rest. snd (snd (CustInsertMany srv db coll docs uo sched (s, tr)))
             = tr @ InsertMany db coll docs True False # rest)
   \<and> (fst (srv s (InsertMany db coll docs True False)) \<noteq> None \<longrightarrow>
        snd (snd (CustInsertMany srv db coll docs False sched (s, tr)))
          = tr @ InsertMany db coll docs True False
               # map (\<lambda>doc. InsertOne db coll doc True) sched)
   \<and> (srv s (InsertMany db coll [doc] True False) = (Some err, s1)
        \<and> srv s1 (InsertOne db coll doc True) = (None, s2) \<longrightarrow>
        CustInsertMany srv db coll [doc] False [doc] (s, tr)
          = (Inr (1, 0),
             (s2, tr @ [InsertMany db coll [doc] True False, InsertOne db coll doc True])))
   \<and> mini_server [] (InsertMany ''d'' ''c'' [BDoc [(''_id'', BInt32 1), (''bad'', BBool True)]]
        True False) = (Some ''Document failed validation'', [])
   \<and> CustInsertMany mini_server ''d'' ''c'' [BDoc [(''_id'', BInt32 1), (''bad'', BBool True)]]
        False [BDoc [(''_id'', BInt32 1), (''bad'', BBool True)]] ([], [])
       = (Inr (1, 0),
          ([BDoc [(''_id'', BInt32 1), (''bad'', BBool True)]],
           [InsertMany ''d'' ''c'' [BDoc [(''_id'', BInt32 1), (''bad'', BBool True)]] True False,
            InsertOne ''d'' ''c'' (BDoc [(''_id'', BInt32 1), (''bad'', BBool True)]) True]))"
proof (intro conjI)
  show "\<exists>rest. snd (snd (CustInsertMany srv db coll docs uo sched (s, tr)))
             = tr @ InsertMany db coll docs True False # rest"
  proof (cases "fst (srv s (InsertMany db coll docs True False))")
    case None
    then show ?thesis by (simp add: CustInsertMany_def issue_eq)
  next
    case (Some err)
    obtain rest where "snd (snd (worker_pool srv db coll uo sched (0, 0)
        (snd (srv s (InsertMany db coll docs True False)),
         tr @ [InsertMany db coll docs True False])))
          = (tr @ [InsertMany db coll docs True False]) @ rest"
      using worker_pool_trace_prefix [of srv db coll uo sched "(0, 0)"
          "snd (srv s (InsertMany db coll docs True False))"
          "tr @ [InsertMany db coll docs True False]"]
      by blast
    with Some show ?thesis by (simp add: CustInsertMany_def issue_eq)
  qed
next
  show "fst (srv s (InsertMany db coll docs True False)) \<noteq> None \<longrightarrow>
        snd (snd (CustInsertMany srv db coll docs False sched (s, tr)))
          = tr @ InsertMany db coll docs True False
               # map (\<lambda>doc. InsertOne db coll doc True) sched"
    by (auto simp: CustInsertMany_def issue_eq worker_pool_skip insert_one_calls_def)
next
  show "srv s (InsertMany db coll [doc] True False) = (Some err, s1)
        \<and> srv s1 (InsertOne db coll doc True) = (None, s2) \<longrightarrow>
        CustInsertMany srv db coll [doc] False [doc] (s, tr)
          = (Inr (1, 0),
             (s2, tr @ [InsertMany db coll [doc] True False, InsertOne db coll doc True]))"
    by (simp add: CustInsertMany_def issue_eq handler_skip counted_success_def)
next
  show "mini_server [] (InsertMany ''d'' ''c''
          [BDoc [(''_id'', BInt32 1), (''bad'', BBool True)]] True False)
        = (Some ''Document failed validation'', [])"
    by (simp add: store_one_def valid_doc_def D_Map_def)
next
  show "CustInsertMany mini_server ''d'' ''c''
          [BDoc [(''_id'', BInt32 1), (''bad'', BBool True)]]
          False [BDoc [(''_id'', BInt32 1), (''bad'', BBool True)]] ([], [])
       = (Inr (1, 0),
          ([BDoc [(''_id'', BInt32 1), (''bad'', BBool True)]],
           [InsertMany ''d'' ''c'' [BDoc [(''_id'', BInt32 1), (''bad'', BBool True)]] True False,
            InsertOne ''d'' ''c'' (BDoc [(''_id'', BInt32 1), (''bad'', BBool True)]) True]))"
    by (simp add: CustInsertMany_def issue_def insertManyErrHandler_def store_one_def
        valid_doc_def doc_id_def D_Map_def at_key_def)
qed

theorem CustInsertMany_validation_asymmetry_witness:
  "CustInsertMany mini_server ''d'' ''c'' [BDoc [(''_id'', BInt32 7), (''bad'', BInt32 0)]]
      False [BDoc [(''_id'', BInt32 7), (''bad'', BInt32 0)]] ([BDoc [(''_id'', BInt32 5)]], [])
     = (Inr (1, 0),
        ([BDoc [(''_id'', BInt32 5)], BDoc [(''_id'', BInt32 7), (''bad'', BInt32 0)]],
         [InsertMany ''d'' ''c'' [BDoc [(''_id'', BInt32 7), (''bad'', BInt32 0)]] True False,
          InsertOne ''d'' ''c'' (BDoc [(''_id'', BInt32 7), (''bad'', BInt32 0)]) True]))"
proof -
  let ?doc = "BDoc [(''_id'', BInt32 7), (''bad'', BInt32 0)]"
  let ?s = "[BDoc [(''_id'', BInt32 5)]]"
  have h1: "mini_server ?s (InsertMany ''d'' ''c'' [?doc] True False)
              = (Some ''Document failed validation'', ?s)"
    by (simp add: store_one_def valid_doc_def D_Map_def)
  have h2: "mini_server ?s (InsertOne ''d'' ''c'' ?doc True) = (None, ?s @ [?doc])"
    by (simp add: store_one_def valid_doc_def doc_id_def D_Map_def at_key_def)
  from CustInsertMany_validation_asymmetry [where srv = mini_server and s = ?s
      and db = "''d''" and coll = "''c''" and doc = ?doc and tr = "[]"
      and err = "''Document failed validation''" and ?s1.0 = ?s and ?s2.0 = "?s @ [?doc]"]
    h1 h2
  show ?thesis by simp
qed

end
